theory Spec2Isabelle
  imports Main
begin

section \<open>Data model of the to-do service (main.py)\<close>

text \<open>
  The service keeps two SQLite tables, \<open>users\<close> and \<open>todos\<close>, both with an
  \<open>INTEGER PRIMARY KEY AUTOINCREMENT\<close> identifier. A table is modelled as the list of its
  rows in insertion order, together with the counter SQLite keeps for an AUTOINCREMENT
  column (the largest identifier ever handed out, so that identifiers are never reused).
  The two values the handlers take from their environment are parameters of the model:
  the text of \<open>CURRENT_TIMESTAMP\<close> (\<open>now\<close>) and the result of
  \<open>secrets.token_urlsafe(32)\<close> (\<open>token\<close>). The store is assumed to be reachable.
\<close>

datatype TaskStatus = pending | completed

record users_row =
  users_id :: int
  users_name :: string
  users_email :: string
  users_api_key :: string
  users_created_at :: string

record todos_row =
  todos_id :: int
  todos_title :: string
  todos_description :: "string option"
  todos_status :: TaskStatus
  todos_user_id :: int
  todos_created_at :: string

record database =
  tbl_users :: "users_row list"
  tbl_todos :: "todos_row list"
  seq_users :: int
  seq_todos :: int

text \<open>\<open>init_db\<close> on a fresh file: both tables exist and are empty.\<close>

definition init_db :: database where
  "init_db = \<lparr>tbl_users = [], tbl_todos = [], seq_users = 0, seq_todos = 0\<rparr>"

subsection \<open>Request and response models\<close>

record UserCreate =
  UserCreate_name :: string
  UserCreate_email :: string

record TodoCreate =
  TodoCreate_title :: string
  TodoCreate_description :: "string option"

record TodoUpdate =
  TodoUpdate_title :: "string option"
  TodoUpdate_description :: "string option"
  TodoUpdate_status :: "TaskStatus option"

record Todo =
  Todo_id :: int
  Todo_title :: string
  Todo_description :: "string option"
  Todo_status :: TaskStatus
  Todo_created_at :: string

text \<open>
  What a request can fail with. \<open>HTTPException\<close> carries the status code and the detail
  text a handler raises; \<open>RequestValidationError\<close> is the rejection (422) of a body that
  does not fit the declared model, raised before the handler runs; \<open>NotAuthenticated\<close> is
  the rejection \<open>APIKeyHeader\<close> raises by itself (detail ``Not authenticated'', with the
  status code the framework gives it: 403, or 401 in later releases);
  \<open>InternalServerError\<close> is the answer (500) to an exception no handler catches.
\<close>

datatype error =
  HTTPException (status_code: int) (detail: string)
| RequestValidationError
| NotAuthenticated
| InternalServerError

text \<open>
  A member of a JSON request body, as the model classes see it: missing, \<open>null\<close>, or a
  value of the declared type. A field declared \<open>Optional[T] = None\<close> takes \<open>None\<close> for a
  missing member and for \<open>null\<close> alike; a field declared \<open>str\<close> with no default must be
  present and must not be \<open>null\<close>.
\<close>

datatype 'a field = Absent | Null | Value 'a


record TodoUpdate_body =
  upd_title :: "string field"
  upd_description :: "string field"
  upd_status :: "TaskStatus field"

fun optional :: "'a field \<Rightarrow> 'a option" where
  "optional Absent = None"
| "optional Null = None"
| "optional (Value v) = Some v"


definition TodoUpdate_of :: "TodoUpdate_body \<Rightarrow> TodoUpdate" where
  "TodoUpdate_of b =
     \<lparr>TodoUpdate_title = optional (upd_title b),
      TodoUpdate_description = optional (upd_description b),
      TodoUpdate_status = optional (upd_status b)\<rparr>"

text \<open>\<open>response_model=Todo\<close>: the row without its \<open>user_id\<close> column.\<close>

definition Todo_of_row :: "todos_row \<Rightarrow> Todo" where
  "Todo_of_row r =
     \<lparr>Todo_id = todos_id r, Todo_title = todos_title r,
      Todo_description = todos_description r, Todo_status = todos_status r,
      Todo_created_at = todos_created_at r\<rparr>"

section \<open>Identity resolver\<close>

text \<open>\<open>SELECT * FROM users WHERE api_key = ?\<close>, first row, or 401.\<close>

definition get_current_user :: "database \<Rightarrow> string \<Rightarrow> error + users_row" where
  "get_current_user db api_key =
     (case find (\<lambda>u. users_api_key u = api_key) (tbl_users db) of
        None \<Rightarrow> Inl (HTTPException 401 ''Invalid API key'')
      | Some user \<Rightarrow> Inr user)"

text \<open>
  \<open>API_KEY_HEADER = APIKeyHeader(name="X-API-Key")\<close>, the dependency of
  \<open>get_current_user\<close>: it reads the header of the request (\<open>None\<close> when the request has
  none) and, a missing header and an empty one alike, raises by itself.
\<close>

definition API_KEY_HEADER :: "string option \<Rightarrow> error + string" where
  "API_KEY_HEADER header =
     (case header of
        None \<Rightarrow> Inl NotAuthenticated
      | Some api_key \<Rightarrow> if api_key = [] then Inl NotAuthenticated else Inr api_key)"

text \<open>
  \<open>Depends(get_current_user)\<close>: the handler runs only with a resolved user; when a
  dependency raises, the response is its error and the handler is never called.
\<close>

definition Depends_get_current_user ::
  "database \<Rightarrow> string option \<Rightarrow> (users_row \<Rightarrow> (error + 'a) \<times> database) \<Rightarrow>
     (error + 'a) \<times> database" where
  "Depends_get_current_user db header handler =
     (case API_KEY_HEADER header of
        Inl e \<Rightarrow> (Inl e, db)
      | Inr api_key \<Rightarrow>
          (case get_current_user db api_key of
             Inl e \<Rightarrow> (Inl e, db)
           | Inr current_user \<Rightarrow> handler current_user))"

text \<open>
  Registration. The INSERT violates a constraint (\<open>sqlite3.IntegrityError\<close>) when the email
  or the generated key is already stored, both columns being UNIQUE; the handler answers
  400 for either and nothing is committed.
\<close>

definition generate_api_key ::
  "database \<Rightarrow> string \<Rightarrow> string \<Rightarrow> UserCreate \<Rightarrow> (error + string) \<times> database" where
  "generate_api_key db now token user =
     (if (\<exists>u \<in> set (tbl_users db).
            users_email u = UserCreate_email user \<or> users_api_key u = token)
      then (Inl (HTTPException 400 ''Email already registered''), db)
      else (Inr token,
            db\<lparr>tbl_users := tbl_users db @
                  [\<lparr>users_id = seq_users db + 1, users_name = UserCreate_name user,
                    users_email = UserCreate_email user, users_api_key = token,
                    users_created_at = now\<rparr>],
               seq_users := seq_users db + 1\<rparr>))"

section \<open>Task store\<close>

definition create_todo ::
  "database \<Rightarrow> string \<Rightarrow> TodoCreate \<Rightarrow> users_row \<Rightarrow> (error + Todo) \<times> database" where
  "create_todo db now todo current_user =
     (let result = \<lparr>todos_id = seq_todos db + 1, todos_title = TodoCreate_title todo,
                     todos_description = TodoCreate_description todo,
                     todos_status = pending, todos_user_id = users_id current_user,
                     todos_created_at = now\<rparr>
      in (Inr (Todo_of_row result),
          db\<lparr>tbl_todos := tbl_todos db @ [result], seq_todos := seq_todos db + 1\<rparr>))"

definition read_todos :: "database \<Rightarrow> users_row \<Rightarrow> (error + Todo list) \<times> database" where
  "read_todos db current_user =
     (Inr (map Todo_of_row
             (filter (\<lambda>t. todos_user_id t = users_id current_user) (tbl_todos db))),
      db)"

text \<open>
  The partial update. \<open>update_fields\<close> keeps the members of \<open>todo_update.dict()\<close> that
  are not \<open>None\<close>, in declaration order; each becomes one assignment of the SET clause.
\<close>

datatype assignment = Set_title string | Set_description string | Set_status TaskStatus

definition update_fields :: "TodoUpdate \<Rightarrow> assignment list" where
  "update_fields todo_update =
     (case TodoUpdate_title todo_update of None \<Rightarrow> [] | Some v \<Rightarrow> [Set_title v]) @
     (case TodoUpdate_description todo_update of None \<Rightarrow> [] | Some v \<Rightarrow> [Set_description v]) @
     (case TodoUpdate_status todo_update of None \<Rightarrow> [] | Some v \<Rightarrow> [Set_status v])"

fun assign :: "assignment \<Rightarrow> todos_row \<Rightarrow> todos_row" where
  "assign (Set_title v) r = r\<lparr>todos_title := v\<rparr>"
| "assign (Set_description v) r = r\<lparr>todos_description := Some v\<rparr>"
| "assign (Set_status v) r = r\<lparr>todos_status := v\<rparr>"

text \<open>\<open>UPDATE todos SET ... WHERE id = ?\<close>: every row with that identifier is rewritten.\<close>

definition sql_update :: "assignment list \<Rightarrow> int \<Rightarrow> todos_row list \<Rightarrow> todos_row list" where
  "sql_update fs todo_id rows =
     map (\<lambda>t. if todos_id t = todo_id then fold assign fs t else t) rows"

text \<open>
  The path parameter \<open>todo_id: int\<close> is an unbounded Python integer, and \<open>sqlite3\<close> binds
  an integer parameter as a signed 64-bit INTEGER: outside that range the \<open>execute\<close> call
  raises \<open>OverflowError\<close>, which neither handler catches.
\<close>

definition int64 :: "int \<Rightarrow> bool" where
  "int64 n \<longleftrightarrow> - 9223372036854775808 \<le> n \<and> n \<le> 9223372036854775807"

text \<open>\<open>SELECT * FROM todos WHERE id = ? AND user_id = ?\<close>, first row.\<close>

definition select_owned ::
  "database \<Rightarrow> int \<Rightarrow> users_row \<Rightarrow> error + todos_row option" where
  "select_owned db todo_id current_user =
     (if int64 todo_id
      then Inr (find (\<lambda>t. todos_id t = todo_id \<and> todos_user_id t = users_id current_user)
                  (tbl_todos db))
      else Inl InternalServerError)"

definition update_todo ::
  "database \<Rightarrow> int \<Rightarrow> TodoUpdate \<Rightarrow> users_row \<Rightarrow> (error + Todo) \<times> database" where
  "update_todo db todo_id todo_update current_user =
     (case select_owned db todo_id current_user of
        Inl e \<Rightarrow> (Inl e, db)
      | Inr None \<Rightarrow> (Inl (HTTPException 404 ''Todo not found''), db)
      | Inr (Some todo) \<Rightarrow>
          (if update_fields todo_update \<noteq> [] then
             (let rows = sql_update (update_fields todo_update) todo_id (tbl_todos db)
              in case find (\<lambda>t. todos_id t = todo_id) rows of
                   Some result \<Rightarrow> (Inr (Todo_of_row result), db\<lparr>tbl_todos := rows\<rparr>)
                 | None \<Rightarrow> (Inl InternalServerError, db))
           else (Inr (Todo_of_row todo), db)))"

definition delete_todo ::
  "database \<Rightarrow> int \<Rightarrow> users_row \<Rightarrow> (error + string) \<times> database" where
  "delete_todo db todo_id current_user =
     (case select_owned db todo_id current_user of
        Inl e \<Rightarrow> (Inl e, db)
      | Inr None \<Rightarrow> (Inl (HTTPException 404 ''Todo not found''), db)
      | Inr (Some todo) \<Rightarrow>
          (Inr ''Todo deleted successfully'',
           db\<lparr>tbl_todos := filter (\<lambda>t. todos_id t \<noteq> todo_id) (tbl_todos db)\<rparr>))"

subsection \<open>The authenticated routes\<close>



definition PUT_todos ::
  "database \<Rightarrow> string option \<Rightarrow> int \<Rightarrow> TodoUpdate \<Rightarrow> (error + Todo) \<times> database" where
  "PUT_todos db header todo_id todo_update =
     Depends_get_current_user db header (update_todo db todo_id todo_update)"

definition DELETE_todos ::
  "database \<Rightarrow> string option \<Rightarrow> int \<Rightarrow> (error + string) \<times> database" where
  "DELETE_todos db header todo_id =
     Depends_get_current_user db header (delete_todo db todo_id)"


section \<open>Observations and the schema's invariant\<close>

text \<open>The row with a given identifier, if the table has one.\<close>

definition find_todo :: "database \<Rightarrow> int \<Rightarrow> todos_row option" where
  "find_todo db i = find (\<lambda>t. todos_id t = i) (tbl_todos db)"

text \<open>
  The caller owns a task with the given identifier: the identifier is one the
  \<open>INTEGER\<close> column can hold, and a row has it together with the caller's \<open>user_id\<close>.
\<close>

definition owns :: "database \<Rightarrow> users_row \<Rightarrow> int \<Rightarrow> bool" where
  "owns db current_user todo_id \<longleftrightarrow>
     int64 todo_id \<and>
     (\<exists>t \<in> set (tbl_todos db).
        todos_id t = todo_id \<and> todos_user_id t = users_id current_user)"

text \<open>
  What the schema guarantees of every stored state: the PRIMARY KEY and UNIQUE columns hold
  no value twice, and no identifier exceeds its AUTOINCREMENT counter. It holds of
  \<open>init_db\<close> and every operation keeps it (lemmas \<open>db_ok_*\<close> below).
\<close>

definition db_ok :: "database \<Rightarrow> bool" where
  "db_ok db \<longleftrightarrow>
     distinct (map users_id (tbl_users db)) \<and>
     distinct (map users_email (tbl_users db)) \<and>
     distinct (map users_api_key (tbl_users db)) \<and>
     (\<forall>u \<in> set (tbl_users db). users_id u \<le> seq_users db) \<and>
     distinct (map todos_id (tbl_todos db)) \<and>
     (\<forall>t \<in> set (tbl_todos db). todos_id t \<le> seq_todos db)"

text \<open>The error taxonomy of the specification, as the responses the handlers raise.\<close>

definition not_found :: error where
  "not_found = HTTPException 404 ''Todo not found''"

definition unauthenticated :: error where
  "unauthenticated = HTTPException 401 ''Invalid API key''"


text \<open>
  The partial update in the specification's words: each provided field takes the
  submitted value, every other column of the row is left as it is.
\<close>

definition spec_partial_update :: "TodoUpdate \<Rightarrow> todos_row \<Rightarrow> todos_row" where
  "spec_partial_update upd r =
     r\<lparr>todos_title := (case TodoUpdate_title upd of None \<Rightarrow> todos_title r | Some v \<Rightarrow> v),
       todos_description :=
         (case TodoUpdate_description upd of None \<Rightarrow> todos_description r | Some v \<Rightarrow> Some v),
       todos_status := (case TodoUpdate_status upd of None \<Rightarrow> todos_status r | Some v \<Rightarrow> v)\<rparr>"

subsection \<open>Sample data\<close>

definition alice :: users_row where
  "alice = \<lparr>users_id = 1, users_name = ''Alice'', users_email = ''a@x.org'',
            users_api_key = ''key-a'', users_created_at = ''2024-01-01 00:00:00''\<rparr>"

definition bob :: users_row where
  "bob = \<lparr>users_id = 2, users_name = ''Bob'', users_email = ''b@x.org'',
          users_api_key = ''key-b'', users_created_at = ''2024-01-01 00:00:01''\<rparr>"

definition milk :: todos_row where
  "milk = \<lparr>todos_id = 1, todos_title = ''Buy milk'', todos_description = Some ''2 litres'',
           todos_status = pending, todos_user_id = 1,
           todos_created_at = ''2024-01-02 00:00:00''\<rparr>"

definition db_users :: database where
  "db_users = \<lparr>tbl_users = [alice, bob], tbl_todos = [], seq_users = 2, seq_todos = 0\<rparr>"

definition db_milk :: database where
  "db_milk = \<lparr>tbl_users = [alice, bob], tbl_todos = [milk], seq_users = 2, seq_todos = 1\<rparr>"

definition carol :: UserCreate where
  "carol = \<lparr>UserCreate_name = ''Carol'', UserCreate_email = ''c@x.org''\<rparr>"


definition carol_row :: users_row where
  "carol_row = \<lparr>users_id = 3, users_name = ''Carol'', users_email = ''c@x.org'',
                users_api_key = ''key-c'', users_created_at = ''2024-01-04 00:00:00''\<rparr>"

definition db_carol :: database where
  "db_carol = \<lparr>tbl_users = [alice, bob, carol_row], tbl_todos = [milk],
               seq_users = 3, seq_todos = 1\<rparr>"

definition mark_done :: TodoUpdate where
  "mark_done = \<lparr>TodoUpdate_title = None, TodoUpdate_description = None,
                TodoUpdate_status = Some completed\<rparr>"


definition db_deleted :: database where
  "db_deleted = \<lparr>tbl_users = [alice, bob], tbl_todos = [], seq_users = 2, seq_todos = 1\<rparr>"




definition null_description :: TodoUpdate_body where
  "null_description = \<lparr>upd_title = Absent, upd_description = Null, upd_status = Absent\<rparr>"



section \<open>Auxiliary lemmas\<close>

lemma db_ok_init_db: "db_ok init_db"
  by (simp add: db_ok_def init_db_def)

lemma assign_frame:
  "todos_id (assign a r) = todos_id r \<and> todos_user_id (assign a r) = todos_user_id r \<and>
   todos_created_at (assign a r) = todos_created_at r"
  by (cases a) simp_all

lemma fold_assign_frame:
  "todos_id (fold assign fs r) = todos_id r \<and>
   todos_user_id (fold assign fs r) = todos_user_id r \<and>
   todos_created_at (fold assign fs r) = todos_created_at r"
  by (induction fs arbitrary: r) (simp_all add: assign_frame)

lemma map_id_sql_update: "map todos_id (sql_update fs i rows) = map todos_id rows"
  by (induction rows) (simp_all add: sql_update_def fold_assign_frame)

lemma set_sql_update_id:
  "t \<in> set (sql_update fs i rows) \<Longrightarrow> todos_id t \<in> todos_id ` set rows"
  using map_id_sql_update [of fs i rows] by (metis image_eqI list.set_map)

lemma db_ok_generate_api_key: "db_ok db \<Longrightarrow> db_ok (snd (generate_api_key db now token user))"
  by (fastforce simp: db_ok_def generate_api_key_def)

lemma db_ok_create_todo: "db_ok db \<Longrightarrow> db_ok (snd (create_todo db now todo u))"
  by (fastforce simp: db_ok_def create_todo_def Let_def)

lemma db_ok_read_todos: "db_ok db \<Longrightarrow> db_ok (snd (read_todos db u))"
  by (simp add: read_todos_def)

lemma db_ok_update_todo: "db_ok db \<Longrightarrow> db_ok (snd (update_todo db i upd u))"
  by (auto simp: db_ok_def update_todo_def Let_def map_id_sql_update
      split: option.splits sum.splits dest!: set_sql_update_id)

lemma db_ok_delete_todo: "db_ok db \<Longrightarrow> db_ok (snd (delete_todo db i u))"
  by (auto simp: db_ok_def delete_todo_def distinct_map_filter
      split: option.splits sum.splits)


lemma select_owned_out_of_range:
  "\<not> int64 i \<Longrightarrow> select_owned db i u = Inl InternalServerError"
  by (simp add: select_owned_def)

lemma select_owned_None:
  "int64 i \<Longrightarrow> select_owned db i u = Inr None \<longleftrightarrow> \<not> owns db u i"
  by (auto simp: select_owned_def owns_def find_None_iff)

lemma owns_select_owned:
  assumes "owns db u i"
  shows "\<exists>t. select_owned db i u = Inr (Some t)"
proof -
  from assms have r: "int64 i"
    by (simp add: owns_def)
  from assms have "find (\<lambda>t. todos_id t = i \<and> todos_user_id t = users_id u) (tbl_todos db)
      \<noteq> None"
    by (auto simp: owns_def find_None_iff)
  then obtain t where
    "find (\<lambda>t. todos_id t = i \<and> todos_user_id t = users_id u) (tbl_todos db) = Some t"
    by blast
  with r show ?thesis
    by (simp add: select_owned_def)
qed

lemma select_owned_Some:
  "select_owned db i u = Inr (Some t) \<Longrightarrow>
     t \<in> set (tbl_todos db) \<and> todos_id t = i \<and> todos_user_id t = users_id u"
  by (auto simp: select_owned_def find_Some_iff split: if_splits)

lemma fold_assign_update_fields:
  "fold assign (update_fields upd) r = spec_partial_update upd r"
  by (simp add: update_fields_def spec_partial_update_def split: option.splits)

lemma update_fields_Nil:
  "update_fields upd = [] \<longleftrightarrow>
     TodoUpdate_title upd = None \<and> TodoUpdate_description upd = None \<and>
     TodoUpdate_status upd = None"
  by (simp add: update_fields_def split: option.splits)


lemma spec_partial_update_empty:
  "update_fields upd = [] \<Longrightarrow> spec_partial_update upd r = r"
  by (simp add: update_fields_Nil spec_partial_update_def)

lemma find_distinct_id:
  "distinct (map todos_id rows) \<Longrightarrow> t \<in> set rows \<Longrightarrow>
     find (\<lambda>x. todos_id x = todos_id t) rows = Some t"
  by (induction rows) force+

lemma find_map_id:
  "(\<And>r. todos_id (f r) = todos_id r) \<Longrightarrow>
     find (\<lambda>x. todos_id x = j) (map f rows) = map_option f (find (\<lambda>x. todos_id x = j) rows)"
  by (induction rows) simp_all

lemma find_sql_update:
  "find (\<lambda>x. todos_id x = j) (sql_update fs i rows) =
     map_option (\<lambda>t. if todos_id t = i then fold assign fs t else t)
       (find (\<lambda>x. todos_id x = j) rows)"
  unfolding sql_update_def by (rule find_map_id) (simp add: fold_assign_frame)


lemma update_todo_owned:
  assumes ok: "db_ok db" and sel: "select_owned db i u = Inr (Some t)"
  shows "update_todo db i upd u =
           (Inr (Todo_of_row (spec_partial_update upd t)),
            if update_fields upd = [] then db
            else db\<lparr>tbl_todos := sql_update (update_fields upd) i (tbl_todos db)\<rparr>)"
proof -
  from sel have t: "t \<in> set (tbl_todos db)" "todos_id t = i"
    by (simp_all add: select_owned_Some)
  from ok have "distinct (map todos_id (tbl_todos db))"
    by (simp add: db_ok_def)
  with t have f: "find (\<lambda>x. todos_id x = i) (tbl_todos db) = Some t"
    using find_distinct_id by blast
  show ?thesis
    by (simp add: update_todo_def sel Let_def find_sql_update f t
                  fold_assign_update_fields spec_partial_update_empty)
qed


lemma owned_rows_scoped:
  assumes d: "distinct (map todos_id rows)"
    and t: "t \<in> set rows" and t': "t' \<in> set rows"
    and e: "todos_id t = todos_id t'"
  shows "t = t'"
proof -
  from d have "inj_on todos_id (set rows)"
    by (simp add: distinct_map)
  then show ?thesis
    using e t t' by (rule inj_onD)
qed

lemma find_snoc:
  "find P (xs @ [x]) =
     (case find P xs of Some y \<Rightarrow> Some y | None \<Rightarrow> if P x then Some x else None)"
  by (induction xs) simp_all



lemma length_filter_other:
  "distinct (map f xs) \<Longrightarrow> x \<in> set xs \<Longrightarrow>
     length (filter (\<lambda>y. f y \<noteq> f x) xs) + 1 = length xs"
proof (induction xs)
  case Nil
  then show ?case by simp
next
  case (Cons a xs)
  show ?case
  proof (cases "f a = f x")
    case True
    with Cons.prems have "\<forall>y \<in> set xs. f y \<noteq> f x"
      by (metis distinct.simps(2) image_eqI list.simps(9) list.set_map)
    then have "filter (\<lambda>y. f y \<noteq> f x) xs = xs"
      by simp
    with True show ?thesis by simp
  next
    case False
    with Cons.prems have "x \<in> set xs" and "distinct (map f xs)"
      by auto
    with Cons.IH False show ?thesis by simp
  qed
qed

lemma find_Some_holds: "find P xs = Some x \<Longrightarrow> P x"
  by (induction xs) (auto split: if_splits)

lemma find_todo_update_todo:
  assumes ok: "db_ok db" and sel: "select_owned db i u = Inr (Some t)"
  shows "find_todo (snd (update_todo db i upd u)) j =
           (if j = i then Some (spec_partial_update upd t) else find_todo db j)"
proof -
  from sel have t: "t \<in> set (tbl_todos db)" "todos_id t = i"
    by (simp_all add: select_owned_Some)
  from ok have "distinct (map todos_id (tbl_todos db))"
    by (simp add: db_ok_def)
  with t have f: "find_todo db i = Some t"
    unfolding find_todo_def using find_distinct_id by blast
  have other: "j \<noteq> i \<Longrightarrow>
      map_option (\<lambda>t. if todos_id t = i then fold assign (update_fields upd) t else t)
        (find (\<lambda>x. todos_id x = j) (tbl_todos db)) = find (\<lambda>x. todos_id x = j) (tbl_todos db)"
    by (cases "find (\<lambda>x. todos_id x = j) (tbl_todos db)") (auto dest: find_Some_holds)
  show ?thesis
  proof (cases "update_fields upd = []")
    case True
    then show ?thesis
      using f by (simp add: update_todo_owned [OF ok sel] spec_partial_update_empty)
  next
    case False
    then show ?thesis
      using f other
      by (simp add: update_todo_owned [OF ok sel] find_todo_def find_sql_update
                    fold_assign_update_fields t)
  qed
qed

lemma fresh_user_id_unused:
  assumes "db_ok db"
  shows "\<forall>u \<in> set (tbl_users db). users_id u \<noteq> seq_users db + 1"
proof
  fix u
  assume "u \<in> set (tbl_users db)"
  with assms have "users_id u \<le> seq_users db"
    by (simp add: db_ok_def)
  then show "users_id u \<noteq> seq_users db + 1"
    by simp
qed

lemma get_current_user_key:
  "get_current_user db k = Inr u \<Longrightarrow> users_api_key u = k \<and> u \<in> set (tbl_users db)"
  by (auto simp: get_current_user_def find_Some_iff split: option.splits)

lemma assign_keeps_description:
  "todos_description r \<noteq> None \<Longrightarrow> todos_description (assign a r) \<noteq> None"
  by (cases a) simp_all

lemma fold_assign_keeps_description:
  "todos_description r \<noteq> None \<Longrightarrow> todos_description (fold assign fs r) \<noteq> None"
proof (induction fs arbitrary: r)
  case Nil
  then show ?case by simp
next
  case (Cons a fs)
  from Cons.prems have "todos_description (assign a r) \<noteq> None"
    by (rule assign_keeps_description)
  then have "todos_description (fold assign fs (assign a r)) \<noteq> None"
    by (rule Cons.IH)
  then show ?case by simp
qed

lemma update_todo_store:
  "snd (update_todo db i upd u) = db \<or>
   snd (update_todo db i upd u) =
     db\<lparr>tbl_todos := sql_update (update_fields upd) i (tbl_todos db)\<rparr>"
  by (simp add: update_todo_def Let_def split: option.splits sum.splits)

lemma description_survives_update:
  assumes f: "find_todo db j = Some t" and d: "todos_description t \<noteq> None"
  shows "\<exists>t'. find_todo (snd (update_todo db i upd u)) j = Some t' \<and>
              todos_description t' \<noteq> None"
proof -
  let ?f = "\<lambda>t. if todos_id t = i then fold assign (update_fields upd) t else t"
  have keep: "todos_description (?f t) \<noteq> None"
    using d fold_assign_keeps_description [OF d, of "update_fields upd"]
    by (cases "todos_id t = i") simp_all
  have upd: "find_todo (db\<lparr>tbl_todos := sql_update (update_fields upd) i (tbl_todos db)\<rparr>) j =
               Some (?f t)"
    using f by (simp add: find_todo_def find_sql_update)
  from update_todo_store [of db i upd u] show ?thesis
  proof
    assume "snd (update_todo db i upd u) = db"
    with f d show ?thesis by simp
  next
    assume "snd (update_todo db i upd u) =
              db\<lparr>tbl_todos := sql_update (update_fields upd) i (tbl_todos db)\<rparr>"
    with upd keep show ?thesis by simp
  qed
qed

section \<open>Ownership scoping and authentication\<close>

text \<open>
  For an identifier in the 64-bit range: whenever the caller owns no task with it, Update
  and Delete answer 404 and leave the store as it was.
\<close>

lemma not_owned_in_range_is_not_found:
  assumes "int64 i" and "\<not> owns db u i"
  shows "update_todo db i upd u = (Inl not_found, db) \<and>
         delete_todo db i u = (Inl not_found, db)"
proof -
  from assms have "select_owned db i u = Inr None"
    by (simp add: select_owned_None)
  then show ?thesis
    by (simp add: update_todo_def delete_todo_def not_found_def)
qed

text \<open>
  For every identifier: when the caller owns no task with it, the answer of Update and of
  Delete does not depend on the store (it is the same in a store with no such task and in
  a store where another user owns one), and the store is left as it was.
\<close>

lemma not_owned_answer_independent_of_store:
  assumes "\<not> owns db1 u i" and "\<not> owns db2 u i"
  shows "fst (update_todo db1 i upd u) = fst (update_todo db2 i upd u) \<and>
         fst (delete_todo db1 i u) = fst (delete_todo db2 i u) \<and>
         snd (update_todo db1 i upd u) = db1 \<and> snd (delete_todo db1 i u) = db1"
proof (cases "int64 i")
  case True
  with assms have "select_owned db1 i u = Inr None" and "select_owned db2 i u = Inr None"
    by (simp_all add: select_owned_None)
  then show ?thesis
    by (simp add: update_todo_def delete_todo_def)
next
  case False
  then have "select_owned db1 i u = Inl InternalServerError"
    and "select_owned db2 i u = Inl InternalServerError"
    by (simp_all add: select_owned_out_of_range)
  then show ?thesis
    by (simp add: update_todo_def delete_todo_def)
qed

lemma not_owned_sample:
  "int64 1 \<and> \<not> owns db_users bob 1 \<and> \<not> owns db_milk bob 1 \<and>
   find_todo db_users 1 = None \<and> find_todo db_milk 1 = Some milk \<and>
   update_todo db_milk 1 mark_done bob = (Inl (HTTPException 404 ''Todo not found''), db_milk) \<and>
   delete_todo db_milk 1 bob = (Inl (HTTPException 404 ''Todo not found''), db_milk) \<and>
   fst (update_todo db_milk 1 mark_done bob) = fst (update_todo db_users 1 mark_done bob) \<and>
   fst (delete_todo db_milk 1 bob) = fst (delete_todo db_users 1 bob)"
proof -
  have r: "int64 1"
    by (simp add: int64_def)
  have a: "\<not> owns db_milk bob 1"
    by (simp add: owns_def db_milk_def milk_def bob_def)
  have b: "\<not> owns db_users bob 1"
    by (simp add: owns_def db_users_def)
  have c: "find_todo db_users 1 = None \<and> find_todo db_milk 1 = Some milk"
    by (simp add: find_todo_def db_users_def db_milk_def milk_def)
  show ?thesis
    using not_owned_in_range_is_not_found [OF r a, of mark_done]
      not_owned_answer_independent_of_store [OF a b, of mark_done] r a b c
    unfolding not_found_def by auto
qed

text \<open>
  C1. The handlers answer 404 for an identifier the caller does not own only while the
  identifier fits the 64-bit INTEGER of the store. The path parameter is an unbounded
  integer: at \<open>2^63\<close>, which no task has, the ownership SELECT raises while binding it and
  Update and Delete answer 500 instead of 404, through the routes too. The store is still
  left as it was.
\<close>

theorem C1_out_of_range_id_is_500:
  "int64 9223372036854775807 \<and> \<not> int64 9223372036854775808 \<and>
   find_todo db_milk 9223372036854775808 = None \<and>
   update_todo db_milk 9223372036854775808 mark_done bob = (Inl InternalServerError, db_milk) \<and>
   delete_todo db_milk 9223372036854775808 bob = (Inl InternalServerError, db_milk) \<and>
   PUT_todos db_milk (Some ''key-b'') 9223372036854775808 mark_done =
     (Inl InternalServerError, db_milk) \<and>
   DELETE_todos db_milk (Some ''key-b'') 9223372036854775808 =
     (Inl InternalServerError, db_milk)"
proof -
  have r: "int64 9223372036854775807" and n: "\<not> int64 9223372036854775808"
    by (simp_all add: int64_def)
  have f: "find_todo db_milk 9223372036854775808 = None"
    by (simp add: find_todo_def db_milk_def milk_def)
  from n have s: "select_owned db_milk 9223372036854775808 bob = Inl InternalServerError"
    by (rule select_owned_out_of_range)
  have u: "update_todo db_milk 9223372036854775808 mark_done bob =
             (Inl InternalServerError, db_milk)"
    by (simp add: update_todo_def s)
  have d: "delete_todo db_milk 9223372036854775808 bob = (Inl InternalServerError, db_milk)"
    by (simp add: delete_todo_def s)
  have h: "API_KEY_HEADER (Some ''key-b'') = Inr ''key-b''"
    by (simp add: API_KEY_HEADER_def)
  have g: "get_current_user db_milk ''key-b'' = Inr bob"
    by (simp add: get_current_user_def db_milk_def alice_def bob_def)
  have pu: "PUT_todos db_milk (Some ''key-b'') 9223372036854775808 mark_done =
              (Inl InternalServerError, db_milk)"
    by (simp add: PUT_todos_def Depends_get_current_user_def h g u)
  have de: "DELETE_todos db_milk (Some ''key-b'') 9223372036854775808 =
              (Inl InternalServerError, db_milk)"
    by (simp add: DELETE_todos_def Depends_get_current_user_def h g d)
  from r n f u d pu de show ?thesis
    by (intro conjI)
qed



section \<open>Listing\<close>

text \<open>
  C3. List never fails and leaves the store as it is; the records it returns are exactly
  the rows whose \<open>user_id\<close> is the caller's, one record for each such row, and the
  result is empty when the caller owns no task. In a store that satisfies the schema, every
  returned identifier is returned once and belongs to no row of another user.
\<close>

theorem C3_list_exactly_owned:
  "\<exists>ts. read_todos db u = (Inr ts, db) \<and>
      set ts = Todo_of_row ` {t \<in> set (tbl_todos db). todos_user_id t = users_id u} \<and>
      length ts = length (filter (\<lambda>t. todos_user_id t = users_id u) (tbl_todos db)) \<and>
      (users_id u \<notin> todos_user_id ` set (tbl_todos db) \<longrightarrow> ts = []) \<and>
      (db_ok db \<longrightarrow>
         distinct (map Todo_id ts) \<and>
         (\<forall>r \<in> set ts. \<forall>t \<in> set (tbl_todos db).
            todos_id t = Todo_id r \<longrightarrow> todos_user_id t = users_id u))"
proof -
  let ?own = "filter (\<lambda>t. todos_user_id t = users_id u) (tbl_todos db)"
  let ?ts = "map Todo_of_row ?own"
  have ids: "map Todo_id ?ts = map todos_id ?own"
    by (simp add: Todo_of_row_def)
  have empty: "users_id u \<notin> todos_user_id ` set (tbl_todos db) \<longrightarrow> ?ts = []"
  proof
    assume "users_id u \<notin> todos_user_id ` set (tbl_todos db)"
    then have "\<forall>t \<in> set (tbl_todos db). todos_user_id t \<noteq> users_id u"
      by (metis imageI)
    then show "?ts = []"
      by (simp add: filter_empty_conv)
  qed
  have scoped: "db_ok db \<longrightarrow>
         distinct (map Todo_id ?ts) \<and>
         (\<forall>r \<in> set ?ts. \<forall>t \<in> set (tbl_todos db).
            todos_id t = Todo_id r \<longrightarrow> todos_user_id t = users_id u)"
  proof (intro impI conjI ballI)
    assume "db_ok db"
    then have "distinct (map todos_id (tbl_todos db))"
      by (simp add: db_ok_def)
    then show "distinct (map Todo_id ?ts)"
      unfolding ids by (rule distinct_map_filter)
  next
    fix r t
    assume ok: "db_ok db" and r: "r \<in> set ?ts" and t: "t \<in> set (tbl_todos db)"
      and e: "todos_id t = Todo_id r"
    from ok have d: "distinct (map todos_id (tbl_todos db))"
      by (simp add: db_ok_def)
    from r obtain t' where t': "t' \<in> set (tbl_todos db)" "todos_user_id t' = users_id u"
        "r = Todo_of_row t'"
      by auto
    have "todos_id t = todos_id t'"
      using e t'(3) by (simp add: Todo_of_row_def)
    with d t t'(1) have "t = t'"
      by (rule owned_rows_scoped)
    with t'(2) show "todos_user_id t = users_id u"
      by simp
  qed
  have r: "read_todos db u = (Inr ?ts, db)"
    by (simp add: read_todos_def)
  have s: "set ?ts = Todo_of_row ` {t \<in> set (tbl_todos db). todos_user_id t = users_id u}"
    by simp
  have l: "length ?ts = length ?own"
    by simp
  show ?thesis
    using r s l empty scoped by (intro exI [where x = ?ts] conjI)
qed


theorem C3_witness:
  "db_ok db_milk \<and>
   read_todos db_milk alice = (Inr [Todo_of_row milk], db_milk) \<and>
   users_id bob \<notin> todos_user_id ` set (tbl_todos db_milk) \<and>
   read_todos db_milk bob = (Inr [], db_milk)"
proof -
  have ok: "db_ok db_milk"
    by (simp add: db_ok_def db_milk_def alice_def bob_def milk_def)
  have nb: "users_id bob \<notin> todos_user_id ` set (tbl_todos db_milk)"
    by (simp add: db_milk_def bob_def milk_def)
  have a: "read_todos db_milk alice = (Inr [Todo_of_row milk], db_milk)"
    by (simp add: read_todos_def db_milk_def alice_def milk_def)
  from C3_list_exactly_owned [of db_milk bob] obtain ts
    where "read_todos db_milk bob = (Inr ts, db_milk)"
      and "users_id bob \<notin> todos_user_id ` set (tbl_todos db_milk) \<longrightarrow> ts = []"
    by (elim exE conjE)
  with nb have b: "read_todos db_milk bob = (Inr [], db_milk)"
    by simp
  from ok a nb b show ?thesis
    by (intro conjI)
qed

section \<open>Registration\<close>



section \<open>Creating\<close>



section \<open>Deleting\<close>

text \<open>
  C7. Deleting a task the caller owns answers with the confirmation and removes the row
  with that identifier, leaving the other rows and the users as they were; a second Delete
  of the same identifier by the same caller answers 404.
\<close>

theorem C7_delete_then_not_found:
  assumes own: "owns db u i" and del: "delete_todo db i u = (resp, db')"
  shows "resp = Inr ''Todo deleted successfully'' \<and>
         tbl_todos db' = filter (\<lambda>t. todos_id t \<noteq> i) (tbl_todos db) \<and>
         tbl_users db' = tbl_users db \<and>
         find_todo db' i = None \<and>
         (db_ok db \<longrightarrow> length (tbl_todos db') + 1 = length (tbl_todos db)) \<and>
         \<not> owns db' u i \<and>
         delete_todo db' i u = (Inl not_found, db')"
proof -
  from own have range: "int64 i"
    by (simp add: owns_def)
  from own obtain t where sel: "select_owned db i u = Inr (Some t)"
    using owns_select_owned by blast
  then have t: "t \<in> set (tbl_todos db)" "todos_id t = i"
    by (simp_all add: select_owned_Some)
  from del sel have resp: "resp = Inr ''Todo deleted successfully''"
    and db': "db' = db\<lparr>tbl_todos := filter (\<lambda>t. todos_id t \<noteq> i) (tbl_todos db)\<rparr>"
    by (simp_all add: delete_todo_def)
  have rows: "tbl_todos db' = filter (\<lambda>t. todos_id t \<noteq> i) (tbl_todos db)"
    and users: "tbl_users db' = tbl_users db"
    by (simp_all add: db')
  have gone: "find_todo db' i = None"
    by (simp add: find_todo_def rows find_None_iff)
  have one: "db_ok db \<longrightarrow> length (tbl_todos db') + 1 = length (tbl_todos db)"
  proof
    assume "db_ok db"
    then have "distinct (map todos_id (tbl_todos db))"
      by (simp add: db_ok_def)
    from length_filter_other [OF this t(1)] show "length (tbl_todos db') + 1 = length (tbl_todos db)"
      by (simp add: rows t(2))
  qed
  have no: "\<not> owns db' u i"
    by (simp add: owns_def rows)
  with range have "select_owned db' i u = Inr None"
    by (simp add: select_owned_None)
  then have again: "delete_todo db' i u = (Inl not_found, db')"
    by (simp add: delete_todo_def not_found_def)
  from resp rows users gone one no again show ?thesis
    by (intro conjI)
qed

theorem C7_witness:
  "owns db_milk alice 1 \<and>
   delete_todo db_milk 1 alice = (Inr ''Todo deleted successfully'', db_deleted) \<and>
   find_todo db_deleted 1 = None \<and>
   delete_todo db_deleted 1 alice = (Inl (HTTPException 404 ''Todo not found''), db_deleted)"
proof -
  have own: "owns db_milk alice 1"
    by (simp add: owns_def int64_def db_milk_def milk_def alice_def)
  have del: "delete_todo db_milk 1 alice = (Inr ''Todo deleted successfully'', db_deleted)"
    by (simp add: delete_todo_def select_owned_def int64_def db_milk_def db_deleted_def
                  milk_def alice_def)
  from C7_delete_then_not_found [OF own del]
  have "find_todo db_deleted 1 = None \<and>
        delete_todo db_deleted 1 alice = (Inl (HTTPException 404 ''Todo not found''), db_deleted)"
    unfolding not_found_def by (elim conjE) (intro conjI)
  with own del show ?thesis
    by (elim conjE) (intro conjI)
qed

section \<open>Updating\<close>



section \<open>Issued keys\<close>

text \<open>
  C9. After a successful registration the returned key, which resolved to no user before,
  resolves to the row that registration inserted. Whatever a key resolves to holds that
  key, every other key resolves as it did before, and in a store satisfying the schema the
  new row's identifier is that of no earlier user.
\<close>

theorem C9_issued_key_resolves:
  assumes reg: "generate_api_key db now token user = (Inr k, db')"
  shows "\<exists>new. k = token \<and>
      new = \<lparr>users_id = seq_users db + 1, users_name = UserCreate_name user,
             users_email = UserCreate_email user, users_api_key = token,
             users_created_at = now\<rparr> \<and>
      tbl_users db' = tbl_users db @ [new] \<and>
      get_current_user db k = Inl unauthenticated \<and>
      get_current_user db' k = Inr new \<and>
      (\<forall>k' u'. get_current_user db' k' = Inr u' \<longrightarrow> users_api_key u' = k') \<and>
      (\<forall>k'. k' \<noteq> k \<longrightarrow> get_current_user db' k' = get_current_user db k') \<and>
      (db_ok db \<longrightarrow> (\<forall>u \<in> set (tbl_users db). users_id u \<noteq> users_id new))"
proof -
  define new where "new = \<lparr>users_id = seq_users db + 1, users_name = UserCreate_name user,
             users_email = UserCreate_email user, users_api_key = token,
             users_created_at = now\<rparr>"
  have new_key: "users_api_key new = token" and new_id: "users_id new = seq_users db + 1"
    by (simp_all add: new_def)
  from reg have fresh: "\<forall>u \<in> set (tbl_users db).
        users_email u \<noteq> UserCreate_email user \<and> users_api_key u \<noteq> token"
    by (auto simp: generate_api_key_def split: if_splits)
  with reg have k: "k = token" and users: "tbl_users db' = tbl_users db @ [new]"
    by (auto simp: generate_api_key_def new_def split: if_splits)
  from fresh have unknown: "find (\<lambda>u. users_api_key u = token) (tbl_users db) = None"
    by (simp add: find_None_iff)
  have before: "get_current_user db k = Inl unauthenticated"
    by (simp add: get_current_user_def k unknown unauthenticated_def)
  have after: "get_current_user db' k = Inr new"
    by (simp add: get_current_user_def k users find_snoc unknown new_key)
  have only: "\<forall>k' u'. get_current_user db' k' = Inr u' \<longrightarrow> users_api_key u' = k'"
    by (simp add: get_current_user_key)
  have others: "\<forall>k'. k' \<noteq> k \<longrightarrow> get_current_user db' k' = get_current_user db k'"
  proof (intro allI impI)
    fix k'
    assume "k' \<noteq> k"
    then have "users_api_key new \<noteq> k'"
      by (simp add: new_key k)
    then show "get_current_user db' k' = get_current_user db k'"
      by (simp add: get_current_user_def users find_snoc split: option.splits)
  qed
  have ident: "db_ok db \<longrightarrow> (\<forall>u \<in> set (tbl_users db). users_id u \<noteq> users_id new)"
    by (simp add: new_id fresh_user_id_unused)
  from k new_def users before after only others ident show ?thesis
    by (intro exI [where x = new] conjI)
qed

theorem C9_witness:
  "generate_api_key db_milk ''2024-01-04 00:00:00'' ''key-c'' carol = (Inr ''key-c'', db_carol) \<and>
   get_current_user db_milk ''key-c'' = Inl (HTTPException 401 ''Invalid API key'') \<and>
   get_current_user db_carol ''key-c'' = Inr carol_row \<and>
   get_current_user db_carol ''key-a'' = Inr alice"
proof -
  have reg: "generate_api_key db_milk ''2024-01-04 00:00:00'' ''key-c'' carol =
             (Inr ''key-c'', db_carol)"
    by (simp add: generate_api_key_def db_milk_def db_carol_def carol_def carol_row_def
                  alice_def bob_def)
  have row: "\<lparr>users_id = seq_users db_milk + 1, users_name = UserCreate_name carol,
             users_email = UserCreate_email carol, users_api_key = ''key-c'',
             users_created_at = ''2024-01-04 00:00:00''\<rparr> = carol_row"
    by (simp add: db_milk_def carol_def carol_row_def)
  have a: "get_current_user db_milk ''key-a'' = Inr alice"
    by (simp add: get_current_user_def db_milk_def alice_def)
  have ne: "''key-a'' \<noteq> ''key-c''"
    by simp
  from C9_issued_key_resolves [OF reg]
  have "get_current_user db_milk ''key-c'' = Inl (HTTPException 401 ''Invalid API key'') \<and>
        get_current_user db_carol ''key-c'' = Inr carol_row \<and>
        get_current_user db_carol ''key-a'' = get_current_user db_milk ''key-a''"
    unfolding row unauthenticated_def using ne by (elim exE conjE) simp
  with reg a show ?thesis
    by simp
qed

section \<open>Null fields in an update\<close>

text \<open>
  C10. The update model reads a \<open>null\<close> member as it reads a missing one, so the two
  requests have the same effect and the same answer; a \<open>null\<close> description leaves the
  stored description as it is. Hence no Update turns a description that is a string back
  into null: a row whose description is not null still exists, with a description that is
  not null, after any Update by anyone.
\<close>

theorem C10_null_is_absent:
  "TodoUpdate_of (b\<lparr>upd_title := Null\<rparr>) = TodoUpdate_of (b\<lparr>upd_title := Absent\<rparr>) \<and>
   TodoUpdate_of (b\<lparr>upd_description := Null\<rparr>) = TodoUpdate_of (b\<lparr>upd_description := Absent\<rparr>) \<and>
   TodoUpdate_of (b\<lparr>upd_status := Null\<rparr>) = TodoUpdate_of (b\<lparr>upd_status := Absent\<rparr>) \<and>
   update_todo db i (TodoUpdate_of (b\<lparr>upd_description := Null\<rparr>)) u =
     update_todo db i (TodoUpdate_of (b\<lparr>upd_description := Absent\<rparr>)) u \<and>
   (db_ok db \<and> select_owned db i u = Inr (Some t) \<and> upd_description b = Null \<longrightarrow>
      map_option todos_description
        (find_todo (snd (update_todo db i (TodoUpdate_of b) u)) i) =
      Some (todos_description t)) \<and>
   (find_todo db j = Some t \<and> todos_description t \<noteq> None \<longrightarrow>
      (\<exists>t'. find_todo (snd (update_todo db i upd u)) j = Some t' \<and>
            todos_description t' \<noteq> None))"
proof -
  have p1: "TodoUpdate_of (b\<lparr>upd_title := Null\<rparr>) = TodoUpdate_of (b\<lparr>upd_title := Absent\<rparr>)"
    and p2: "TodoUpdate_of (b\<lparr>upd_description := Null\<rparr>) =
             TodoUpdate_of (b\<lparr>upd_description := Absent\<rparr>)"
    and p3: "TodoUpdate_of (b\<lparr>upd_status := Null\<rparr>) = TodoUpdate_of (b\<lparr>upd_status := Absent\<rparr>)"
    by (simp_all add: TodoUpdate_of_def)
  have p4: "update_todo db i (TodoUpdate_of (b\<lparr>upd_description := Null\<rparr>)) u =
     update_todo db i (TodoUpdate_of (b\<lparr>upd_description := Absent\<rparr>)) u"
    by (simp only: p2)
  have p5: "db_ok db \<and> select_owned db i u = Inr (Some t) \<and> upd_description b = Null \<longrightarrow>
      map_option todos_description
        (find_todo (snd (update_todo db i (TodoUpdate_of b) u)) i) =
      Some (todos_description t)"
  proof
    assume a: "db_ok db \<and> select_owned db i u = Inr (Some t) \<and> upd_description b = Null"
    then have "TodoUpdate_description (TodoUpdate_of b) = None"
      by (simp add: TodoUpdate_of_def)
    then have "todos_description (spec_partial_update (TodoUpdate_of b) t) = todos_description t"
      by (simp add: spec_partial_update_def)
    with a show "map_option todos_description
        (find_todo (snd (update_todo db i (TodoUpdate_of b) u)) i) =
      Some (todos_description t)"
      by (simp add: find_todo_update_todo)
  qed
  have p6: "find_todo db j = Some t \<and> todos_description t \<noteq> None \<longrightarrow>
      (\<exists>t'. find_todo (snd (update_todo db i upd u)) j = Some t' \<and>
            todos_description t' \<noteq> None)"
    using description_survives_update [of db j t i upd u] by (intro impI) (elim conjE)
  from p1 p2 p3 p4 p5 p6 show ?thesis
    by (intro conjI)
qed

theorem C10_witness:
  "db_ok db_milk \<and> select_owned db_milk 1 alice = Inr (Some milk) \<and>
   upd_description null_description = Null \<and>
   find_todo db_milk 1 = Some milk \<and> todos_description milk \<noteq> None \<and>
   update_todo db_milk 1 (TodoUpdate_of null_description) alice =
     (Inr (Todo_of_row milk), db_milk) \<and>
   map_option todos_description
     (find_todo (snd (update_todo db_milk 1 (TodoUpdate_of null_description) alice)) 1) =
   Some (Some ''2 litres'')"
proof -
  have ok: "db_ok db_milk"
    by (simp add: db_ok_def db_milk_def alice_def bob_def milk_def)
  have sel: "select_owned db_milk 1 alice = Inr (Some milk)"
    by (simp add: select_owned_def int64_def db_milk_def milk_def alice_def)
  have nul: "upd_description null_description = Null"
    by (simp add: null_description_def)
  have f: "find_todo db_milk 1 = Some milk"
    by (simp add: find_todo_def db_milk_def milk_def)
  have d: "todos_description milk = Some ''2 litres''"
    by (simp add: milk_def)
  have uf: "update_fields (TodoUpdate_of null_description) = []"
    by (simp add: update_fields_def TodoUpdate_of_def null_description_def)
  have u: "update_todo db_milk 1 (TodoUpdate_of null_description) alice =
     (Inr (Todo_of_row milk), db_milk)"
    by (simp add: update_todo_def sel uf)
  from C10_null_is_absent [of null_description db_milk 1 alice milk 1 mark_done]
  have "db_ok db_milk \<and> select_owned db_milk 1 alice = Inr (Some milk) \<and>
        upd_description null_description = Null \<longrightarrow>
      map_option todos_description
        (find_todo (snd (update_todo db_milk 1 (TodoUpdate_of null_description) alice)) 1) =
      Some (todos_description milk)"
    by (elim conjE)
  with ok sel nul have k: "map_option todos_description
     (find_todo (snd (update_todo db_milk 1 (TodoUpdate_of null_description) alice)) 1) =
     Some (Some ''2 litres'')"
    by (simp add: d)
  from ok sel nul f d u k show ?thesis
    by simp
qed

section \<open>Titles\<close>




end
